theory Spec2Isabelle
  imports Complex_Main "HOL-Library.List_Lexorder" "HOL-Library.Char_ord"
begin

section \<open>Python strings over the Latin-1 repertoire\<close>

text \<open>
  A Python \<open>str\<close> is modelled as a \<open>string\<close> whose characters are read as the code
  points 0..255 (Latin-1): \<open>CHR 0xFC\<close> is u-umlaut, \<open>CHR 0xE4\<close> a-umlaut, \<open>CHR 0xF6\<close>
  o-umlaut and \<open>CHR 0xDF\<close> the sharp s. This is the repertoire of the German records the
  program is written for; the built-in string operations below are Python's, restricted
  to these code points. Python floats are modelled as exact rationals, so a comparison
  that a rounding error of the floats decides can come out differently in the model.
\<close>

definition isspace :: "char \<Rightarrow> bool" where
  \<comment> \<open>\<open>str.isspace\<close>, which is also the class \<open>\s\<close> of \<open>re\<close> on \<open>str\<close> patterns\<close>
  "isspace c = (let n = (of_char c :: nat) in
     (9 \<le> n \<and> n \<le> 13) \<or> (28 \<le> n \<and> n \<le> 32) \<or> n = 133 \<or> n = 160)"

definition isdigit :: "char \<Rightarrow> bool" where
  \<comment> \<open>the class \<open>\d\<close>: the decimal digits; in this range only 0-9\<close>
  "isdigit c = (let n = (of_char c :: nat) in 48 \<le> n \<and> n \<le> 57)"

definition is_az :: "char \<Rightarrow> bool" where
  \<comment> \<open>the class \<open>[a-z]\<close>\<close>
  "is_az c = (let n = (of_char c :: nat) in 97 \<le> n \<and> n \<le> 122)"

definition isupper :: "char \<Rightarrow> bool" where
  \<comment> \<open>the characters \<open>str.lower\<close> changes: A-Z and the Latin-1 capitals 0xC0-0xDE
      without the multiplication sign 0xD7\<close>
  "isupper c = (let n = (of_char c :: nat) in
     (65 \<le> n \<and> n \<le> 90) \<or> (192 \<le> n \<and> n \<le> 222 \<and> n \<noteq> 215))"

fun add32 :: "char \<Rightarrow> char" where
  \<comment> \<open>code point + 32 for a capital: bit 5 is clear there, so it is set\<close>
  "add32 (Char b0 b1 b2 b3 b4 b5 b6 b7) = Char b0 b1 b2 b3 b4 True b6 b7"

definition lower_char :: "char \<Rightarrow> char" where
  "lower_char c = (if isupper c then add32 c else c)"

definition lower :: "string \<Rightarrow> string" where
  \<comment> \<open>\<open>str.lower\<close>\<close>
  "lower s = map lower_char s"

definition strip :: "string \<Rightarrow> string" where
  \<comment> \<open>\<open>str.strip()\<close>: leading and trailing whitespace removed\<close>
  "strip s = rev (dropWhile isspace (rev (dropWhile isspace s)))"

definition replace_char :: "char \<Rightarrow> string \<Rightarrow> string \<Rightarrow> string" where
  \<comment> \<open>\<open>s.replace(old, new)\<close> for a one-character \<open>old\<close>\<close>
  "replace_char old new s = concat (map (\<lambda>c. if c = old then new else [c]) s)"

definition endswith :: "string \<Rightarrow> string \<Rightarrow> bool" where
  \<comment> \<open>\<open>s.endswith(suffix)\<close>\<close>
  "endswith s suffix =
     (length suffix \<le> length s \<and> drop (length s - length suffix) s = suffix)"

fun collapse_ws :: "string \<Rightarrow> string" where
  \<comment> \<open>\<open>re.sub(r'\s+', ' ', s)\<close>: every maximal run of whitespace becomes one blank\<close>
  "collapse_ws [] = []"
| "collapse_ws [c] = (if isspace c then '' '' else [c])"
| "collapse_ws (c # d # cs) =
     (if isspace c then (if isspace d then collapse_ws (d # cs)
                         else CHR '' '' # collapse_ws (d # cs))
      else c # collapse_ws (d # cs))"

definition zfill :: "nat \<Rightarrow> string \<Rightarrow> string" where
  \<comment> \<open>\<open>s.zfill(width)\<close> on a string without sign (here: of digits only)\<close>
  "zfill width s = replicate (width - length s) (CHR ''0'') @ s"

definition digit_val :: "char \<Rightarrow> nat" where
  "digit_val c = of_char c - 48"

definition int_of_digits :: "string \<Rightarrow> nat" where
  \<comment> \<open>\<open>int(s)\<close> for a string of decimal digits\<close>
  "int_of_digits s = foldl (\<lambda>acc c. 10 * acc + digit_val c) 0 s"

subsection \<open>The transliteration table of \<open>unidecode\<close>\<close>

text \<open>
  \<open>unidecode\<close> keeps every ASCII character and replaces every other character by the
  ASCII string its table gives. \<open>x000\<close> is the table for the code points 0x80..0xFF; it
  is data of the \<open>unidecode\<close> package (its module \<open>x000\<close>), not of the program. The
  theorems below use of it that every entry is ASCII, that the umlauts map to their
  base letters, and that the section sign maps to \<open>SS\<close>.
\<close>

definition x000 :: "string list" where
  "x000 =
   [[], [], [], [], [], [], [], [], [], [], [], [], [], [], [], [],
    [], [], [], [], [], [], [], [], [], [], [], [], [], [], [], [],
    '' '', ''!'', ''C/'', ''PS'', ''$?'', ''Y='', ''|'', ''SS'',
    [CHR 0x22], ''(c)'', ''a'', ''<<'', ''!'', [], ''(r)'', ''-'',
    ''deg'', ''+-'', ''2'', ''3'', [CHR 0x27], ''u'', ''P'', ''*'',
    '','', ''1'', ''o'', ''>>'', '' 1/4'', '' 1/2'', '' 3/4'', ''?'',
    ''A'', ''A'', ''A'', ''A'', ''A'', ''A'', ''AE'', ''C'',
    ''E'', ''E'', ''E'', ''E'', ''I'', ''I'', ''I'', ''I'',
    ''D'', ''N'', ''O'', ''O'', ''O'', ''O'', ''O'', ''x'',
    ''O'', ''U'', ''U'', ''U'', ''U'', ''Y'', ''Th'', ''ss'',
    ''a'', ''a'', ''a'', ''a'', ''a'', ''a'', ''ae'', ''c'',
    ''e'', ''e'', ''e'', ''e'', ''i'', ''i'', ''i'', ''i'',
    ''d'', ''n'', ''o'', ''o'', ''o'', ''o'', ''o'', ''/'',
    ''o'', ''u'', ''u'', ''u'', ''u'', ''y'', ''th'', ''y'']"

definition unidecode_char :: "char \<Rightarrow> string" where
  "unidecode_char c =
     (if (of_char c :: nat) < 128 then [c] else x000 ! (of_char c - 128))"

definition unidecode :: "string \<Rightarrow> string" where
  "unidecode s = concat (map unidecode_char s)"

section \<open>Records of the input table\<close>

text \<open>
  A cell of the data frame is missing (\<open>None\<close> or \<open>NaN\<close>, both of which \<open>pd.isna\<close>
  accepts) or holds a value; every use the program makes of a value goes through
  \<open>str(...)\<close>, so a value is represented by its \<open>str\<close> rendering.
\<close>

datatype cell = PyNone | NaN | Str string

fun isna :: "cell \<Rightarrow> bool" where
  "isna PyNone = True"
| "isna NaN = True"
| "isna (Str s) = False"

fun str :: "cell \<Rightarrow> string" where
  "str PyNone = ''None''"
| "str NaN = ''nan''"
| "str (Str s) = s"

fun fillna_str :: "cell \<Rightarrow> string" where
  \<comment> \<open>\<open>series.fillna('').astype(str)\<close> on one cell\<close>
  "fillna_str PyNone = []"
| "fillna_str NaN = []"
| "fillna_str (Str s) = s"

record person =
  Name :: cell
  Vorname :: cell
  Name2 :: cell
  Strasse :: cell
  HausNummer :: cell
  Plz :: cell
  Ort :: cell
  Crefo :: cell
  Geburtstag :: cell
  Jahrgang :: cell

section \<open>VectorizedAddressNormalizer\<close>

text \<open>The vectorised operations act on each cell of the column on its own.\<close>

definition normalize_plz :: "cell \<Rightarrow> string" where
  "normalize_plz plz = take 5 (zfill 5 (filter isdigit (fillna_str plz)))"

datatype atom = Lit char | Dot

fun atom_matches :: "atom \<Rightarrow> char \<Rightarrow> bool" where
  "atom_matches (Lit a) c = (c = a)"
| "atom_matches Dot c = (c \<noteq> CHR 0x0A)"

definition sub_suffix :: "atom list \<Rightarrow> string \<Rightarrow> string \<Rightarrow> string" where
  \<comment> \<open>\<open>re.sub(old + '$', new, s)\<close> for a pattern \<open>old\<close> of literals and dots. The subject
      has been stripped, so it does not end in a line break and \<open>$\<close> is its very end.\<close>
  "sub_suffix old new s =
     (if length old \<le> length s \<and> list_all2 atom_matches old (drop (length s - length old) s)
      then take (length s - length old) s @ new else s)"

definition lits :: "string \<Rightarrow> atom list" where
  "lits s = map Lit s"

definition suffix_map :: "(atom list \<times> string) list" where
  \<comment> \<open>the dictionary in its insertion order; the key \<open>'str.'\<close> is used as a regular
      expression, so its dot stands for any character\<close>
  "suffix_map =
     [(lits ''str'' @ [Dot], ''strasse''),
      (lits (''stra'' @ [CHR 0xDF] @ ''e''), ''strasse''),
      (lits ''str'', ''strasse''),
      (lits ''weg'', ''weg''), (lits ''allee'', ''allee''), (lits ''platz'', ''platz''),
      (lits ''gasse'', ''gasse''), (lits ''ring'', ''ring'')]"

definition strip_number_end :: "string \<Rightarrow> string" where
  \<comment> \<open>\<open>re.sub(r'\s+\d+[a-z]*$', '', s)\<close>: the three classes are disjoint, so the match
      is the last run of letters, the run of digits before it and the whole run of
      whitespace before that\<close>
  "strip_number_end s =
     (let r1 = dropWhile is_az (rev s);
          r2 = dropWhile isdigit r1;
          r3 = dropWhile isspace r2
      in if takeWhile isdigit r1 \<noteq> [] \<and> takeWhile isspace r2 \<noteq> [] then rev r3 else s)"

definition strip_number_start :: "string \<Rightarrow> string" where
  \<comment> \<open>\<open>re.sub(r'^\d+[a-z]*\s+', '', s)\<close>\<close>
  "strip_number_start s =
     (let s1 = dropWhile isdigit s;
          s2 = dropWhile is_az s1;
          s3 = dropWhile isspace s2
      in if takeWhile isdigit s \<noteq> [] \<and> takeWhile isspace s2 \<noteq> [] then s3 else s)"

definition normalize_street :: "cell \<Rightarrow> string" where
  "normalize_street street =
     (let s = lower (strip (fillna_str street));
          s = fold (\<lambda>(old, new) s. sub_suffix old new s) suffix_map s;
          s = strip_number_end s;
          s = strip_number_start s;
          s = replace_char (CHR 0xDF) ''ss'' s;
          s = (if s \<noteq> [] then unidecode s else []);
          s = filter (\<lambda>c. is_az c \<or> isspace c) s
      in strip (collapse_ws s))"

section \<open>OptimizedFuzzyMatcher.normalize_name\<close>

definition normalize_name :: "cell \<Rightarrow> string" where
  "normalize_name name =
     (if isna name then []
      else let s = lower (strip (str name));
               s = replace_char (CHR 0xDF) ''ss'' s;
               s = replace_char (CHR 0xFC) ''ue'' s;
               s = replace_char (CHR 0xE4) ''ae'' s;
               s = replace_char (CHR 0xF6) ''oe'' s;
               s = unidecode s
           in strip (collapse_ws s))"

section \<open>FastBusinessRules\<close>

fun search_year :: "string \<Rightarrow> string option" where
  \<comment> \<open>\<open>re.search(r'(\d{4})', s)\<close>: the first four consecutive digits\<close>
  "search_year (a # b # c # d # rest) =
     (if isdigit a \<and> isdigit b \<and> isdigit c \<and> isdigit d then Some [a, b, c, d]
      else search_year (b # c # d # rest))"
| "search_year s = None"

definition extract_year :: "cell \<Rightarrow> int option" where
  "extract_year date_str =
     (if isna date_str \<or> strip (str date_str) = [] then None
      else map_option (\<lambda>ds. int (int_of_digits ds)) (search_year (strip (str date_str))))"

definition check_zweitname :: "cell \<Rightarrow> cell \<Rightarrow> cell \<Rightarrow> cell \<Rightarrow> bool" where
  "check_zweitname name_a name2_a name_b name2_b =
     (let norm_name_a = (if \<not> isna name_a then lower (strip (str name_a)) else []);
          norm_name2_a = (if \<not> isna name2_a then lower (strip (str name2_a)) else []);
          norm_name_b = (if \<not> isna name_b then lower (strip (str name_b)) else []);
          norm_name2_b = (if \<not> isna name2_b then lower (strip (str name2_b)) else [])
      in if norm_name2_a \<noteq> [] \<and> norm_name2_b \<noteq> [] then norm_name2_a = norm_name2_b
         else if norm_name2_a = [] \<and> norm_name2_b = [] then True
         else if norm_name2_a \<noteq> [] \<and> norm_name2_b = [] then endswith norm_name_b norm_name2_a
         else if norm_name2_b \<noteq> [] \<and> norm_name2_a = [] then endswith norm_name_a norm_name2_b
         else True)"

definition parse_jahrgang :: "(string \<Rightarrow> int option) \<Rightarrow> cell \<Rightarrow> int option" where
  \<comment> \<open>the guarded \<open>int(float(str(jahrgang).strip()))\<close>; \<open>int_float s\<close> is the value of
      Python's \<open>int(float(s))\<close>, \<open>None\<close> where it raises\<close>
  "parse_jahrgang int_float jahrgang =
     (if \<not> isna jahrgang \<and> strip (str jahrgang) \<noteq> [] then int_float (strip (str jahrgang))
      else None)"

fun truthy :: "int option \<Rightarrow> bool" where
  \<comment> \<open>the truth value Python gives to \<open>None\<close> or an \<open>int\<close>\<close>
  "truthy None = False"
| "truthy (Some n) = (n \<noteq> 0)"

definition check_date_rule ::
  "(string \<Rightarrow> int option) \<Rightarrow> cell \<Rightarrow> cell \<Rightarrow> cell \<Rightarrow> cell \<Rightarrow> bool" where
  "check_date_rule int_float geburtstag_a jahrgang_a geburtstag_b jahrgang_b =
     (let year_a = extract_year geburtstag_a;
          year_b = extract_year geburtstag_b;
          jg_a = parse_jahrgang int_float jahrgang_a;
          jg_b = parse_jahrgang int_float jahrgang_b;
          effective_a = (if truthy year_a then year_a else jg_a);
          effective_b = (if truthy year_b then year_b else jg_b)
      in if truthy effective_a \<and> truthy effective_b then effective_a = effective_b
         else if effective_a = None \<and> effective_b = None then True
         else False)"

section \<open>Library functions\<close>

text \<open>
  The program calls three functions it does not define. They are parameters of the
  model, so every theorem below holds whatever they compute:
  \<^item> \<open>QRatio a b\<close> is \<open>rapidfuzz.fuzz.QRatio(a, b)\<close>, a similarity on the scale 0..100;
  \<^item> \<open>encode s\<close> is \<open>cologne_phonetics.encode(s)\<close>, a list of (word, code) pairs, and
    \<open>None\<close> when the call raises;
  \<^item> \<open>int_float s\<close> is Python's \<open>int(float(s))\<close>, and \<open>None\<close> when that raises.
\<close>

record libs =
  QRatio :: "string \<Rightarrow> string \<Rightarrow> rat"
  encode :: "string \<Rightarrow> (string \<times> string) list option"
  int_float :: "string \<Rightarrow> int option"

datatype py_error = ZeroDivisionError | ValueError

definition get_cologne_phonetic ::
  "(string \<Rightarrow> (string \<times> string) list option) \<Rightarrow> cell \<Rightarrow> string" where
  "get_cologne_phonetic enc name =
     (if isna name \<or> strip (str name) = [] then []
      else case enc (strip (str name)) of
             None \<Rightarrow> []
           | Some [] \<Rightarrow> []
           | Some ((word, code) # rest) \<Rightarrow> code)"

section \<open>Blocking\<close>

definition create_blocking_key :: "person \<Rightarrow> string" where
  \<comment> \<open>\<open>OptimizedBlockingStrategy.create_blocking_keys_vectorized\<close> on one row: the default
      key, then the three masked assignments in their order\<close>
  "create_blocking_key r =
     (let plz_norm = normalize_plz (Plz r);
          street_norm = normalize_street (Strasse r);
          has_both = (plz_norm \<noteq> [] \<and> street_norm \<noteq> []);
          has_plz_only = (plz_norm \<noteq> [] \<and> street_norm = []);
          has_street_only = (plz_norm = [] \<and> street_norm \<noteq> []);
          key = ''no_address'';
          key = (if has_both then plz_norm @ ''_'' @ street_norm else key);
          key = (if has_plz_only then ''plz_only_'' @ plz_norm else key);
          key = (if has_street_only then ''street_only_'' @ street_norm else key)
      in key)"

definition create_blocking_key_phonetic ::
  "(string \<Rightarrow> (string \<times> string) list option) \<Rightarrow> person \<Rightarrow> string" where
  \<comment> \<open>\<open>PhoneticBlockingStrategy.create_blocking_keys_vectorized\<close> on one row\<close>
  "create_blocking_key_phonetic enc r =
     (let standard_key = create_blocking_key r;
          vorname_phon = get_cologne_phonetic enc (Vorname r);
          name_phon = get_cologne_phonetic enc (Name r);
          no_address = (standard_key = ''no_address'')
      in if no_address then ''phon_'' @ vorname_phon @ ''_'' @ name_phon else standard_key)"

type_synonym block = "(nat \<times> person) list"

fun str_nat :: "nat \<Rightarrow> string" where
  \<comment> \<open>the decimal rendering of a non-negative \<open>int\<close> in an f-string\<close>
  "str_nat n = (if n < 10 then [''0123456789'' ! n]
                else str_nat (n div 10) @ [''0123456789'' ! (n mod 10)])"

fun dict_set :: "string \<Rightarrow> 'v \<Rightarrow> (string \<times> 'v) list \<Rightarrow> (string \<times> 'v) list" where
  \<comment> \<open>\<open>d[key] = value\<close> on a dictionary kept in insertion order\<close>
  "dict_set k v [] = [(k, v)]"
| "dict_set k v ((k', v') # d) = (if k' = k then (k, v) # d else (k', v') # dict_set k v d)"

definition groupby :: "string list \<Rightarrow> person list \<Rightarrow> (string \<times> block) list" where
  \<comment> \<open>\<open>df.groupby('blocking_key')\<close>: the groups in the sorted order of their keys, each
      with its rows in the order of the frame; a row carries its index, which is its
      position in the frame\<close>
  "groupby keys df =
     (let rows = zip keys (zip [0..<length df] df)
      in map (\<lambda>k. (k, map snd (filter (\<lambda>row. fst row = k) rows))) (sort (remdups keys)))"

definition range_step :: "nat \<Rightarrow> nat \<Rightarrow> nat list" where
  \<comment> \<open>\<open>range(0, n, step)\<close> for a positive step\<close>
  "range_step n step = map (\<lambda>q. q * step) [0..<(n + step - 1) div step]"

definition add_group :: "nat \<Rightarrow> string \<times> block \<Rightarrow> (string \<times> block) list \<Rightarrow> (string \<times> block) list" where
  "add_group max_block_size g blocks =
     (case g of (key, group_df) \<Rightarrow>
        let block_size = length group_df
        in if 1 < block_size \<and> block_size \<le> max_block_size then dict_set key group_df blocks
           else if block_size > max_block_size then
             fold (\<lambda>i blocks.
                     let chunk = take max_block_size (drop i group_df)
                     in if length chunk > 1
                        then dict_set (key @ ''_chunk_'' @ str_nat i) chunk blocks
                        else blocks)
                  (range_step block_size max_block_size) blocks
           else blocks)"

definition create_blocks ::
  "(person \<Rightarrow> string) \<Rightarrow> person list \<Rightarrow> nat \<Rightarrow> py_error + (string \<times> block) list" where
  \<comment> \<open>\<open>range\<close> raises on a zero step, which the first group reaches; the average block
      size that is logged divides by the number of blocks\<close>
  "create_blocks key_of df max_block_size =
     (if max_block_size = 0 \<and> df \<noteq> [] then Inl ValueError
      else let grouped = groupby (map key_of df) df;
               blocks = fold (add_group max_block_size) grouped []
           in if length blocks = 0 then Inl ZeroDivisionError else Inr blocks)"

section \<open>OptimizedFuzzyMatcher.compare_names\<close>

record name_results =
  normal_score :: rat
  swapped_score :: rat
  best_score :: rat
  is_swapped :: bool
  sims :: "(rat \<times> rat \<times> rat \<times> rat) option"
  phonetic_assisted :: bool

definition compare_names ::
  "(string \<Rightarrow> string \<Rightarrow> rat) \<Rightarrow> cell \<Rightarrow> cell \<Rightarrow> cell \<Rightarrow> cell \<Rightarrow> name_results" where
  \<comment> \<open>\<open>sims\<close> holds the four keys \<open>normal_vorname_sim\<close>, \<open>normal_name_sim\<close>,
      \<open>swapped_vorname_sim\<close>, \<open>swapped_name_sim\<close>, which the early return leaves out; the key
      \<open>phonetic_assisted\<close> is absent here and read with the default \<open>False\<close>\<close>
  "compare_names qratio vorname_a name_a vorname_b name_b =
     (let v_a = normalize_name vorname_a;
          n_a = normalize_name name_a;
          v_b = normalize_name vorname_b;
          n_b = normalize_name name_b
      in if v_a = [] \<or> n_a = [] \<or> v_b = [] \<or> n_b = []
         then \<lparr>normal_score = 0, swapped_score = 0, best_score = 0, is_swapped = False,
               sims = None, phonetic_assisted = False\<rparr>
         else let normal_v = qratio v_a v_b / 100;
                  normal_n = qratio n_a n_b / 100;
                  normal = (normal_v + normal_n) / 2;
                  swapped_v = qratio v_a n_b / 100;
                  swapped_n = qratio n_a v_b / 100;
                  swapped = (swapped_v + swapped_n) / 2
              in \<lparr>normal_score = normal, swapped_score = swapped,
                  best_score = max normal swapped, is_swapped = (swapped > normal),
                  sims = Some (normal_v, normal_n, swapped_v, swapped_n),
                  phonetic_assisted = False\<rparr>)"

section \<open>process_block_worker\<close>

record details =
  name_results_of :: "name_results option"
  address_ratio_of :: rat
  address_matches :: nat
  total_address_fields :: nat

record MatchResult =
  record_a_idx :: nat
  record_b_idx :: nat
  confidence_score :: rat
  match_type :: string
  match_details :: details

definition py_truediv :: "rat \<Rightarrow> rat \<Rightarrow> py_error + rat" where
  \<comment> \<open>\<open>a / b\<close>\<close>
  "py_truediv a b = (if b = 0 then Inl ZeroDivisionError else Inr (a / b))"

definition address_fields :: "(person \<Rightarrow> cell) list" where
  "address_fields = [Strasse, HausNummer, Plz, Ort]"

definition address_counts :: "person \<Rightarrow> person \<Rightarrow> nat \<times> nat" where
  \<comment> \<open>the loop over the address fields: (\<open>address_matches\<close>, \<open>total_address_fields\<close>)\<close>
  "address_counts record_a record_b =
     fold (\<lambda>field (matches, considered).
             let val_a = lower (strip (str (field record_a)));
                 val_b = lower (strip (str (field record_b)))
             in if val_a \<noteq> [] \<and> val_b \<noteq> []
                then (if val_a = val_b then matches + 1 else matches, considered + 1)
                else (matches, considered))
          address_fields (0, 0)"

definition address_ratio :: "person \<Rightarrow> person \<Rightarrow> py_error + rat \<times> nat \<times> nat" where
  \<comment> \<open>\<open>address_matches / max(total_address_fields, 1)\<close>, with the two counts\<close>
  "address_ratio record_a record_b =
     (case address_counts record_a record_b of (matches, considered) \<Rightarrow>
        case py_truediv (of_nat matches) (of_nat (max considered 1)) of
          Inl e \<Rightarrow> Inl e
        | Inr ratio \<Rightarrow> Inr (ratio, matches, considered))"

definition passes_rules :: "libs \<Rightarrow> person \<Rightarrow> person \<Rightarrow> bool" where
  \<comment> \<open>the two business rules both stages check first\<close>
  "passes_rules L record_a record_b =
     (check_zweitname (Name record_a) (Name2 record_a) (Name record_b) (Name2 record_b) \<and>
      check_date_rule (int_float L) (Geburtstag record_a) (Jahrgang record_a)
                      (Geburtstag record_b) (Jahrgang record_b))"

definition stage1_pair :: "libs \<Rightarrow> person \<Rightarrow> person \<Rightarrow> py_error + (rat \<times> string \<times> details) option" where
  \<comment> \<open>the body of the stage 1 loop: \<open>None\<close> where it continues without a match\<close>
  "stage1_pair L record_a record_b =
     (if \<not> passes_rules L record_a record_b then Inr None
      else let v_a_norm = normalize_name (Vorname record_a);
               n_a_norm = normalize_name (Name record_a);
               v_b_norm = normalize_name (Vorname record_b);
               n_b_norm = normalize_name (Name record_b)
           in if \<not> (v_a_norm \<noteq> [] \<and> n_a_norm \<noteq> [] \<and> v_b_norm \<noteq> [] \<and> n_b_norm \<noteq> [])
              then Inr None
              else let is_exact_normal = (v_a_norm = v_b_norm \<and> n_a_norm = n_b_norm);
                       is_exact_swapped = (v_a_norm = n_b_norm \<and> n_a_norm = v_b_norm)
                   in if is_exact_normal \<or> is_exact_swapped
                      then (case address_ratio record_a record_b of
                              Inl e \<Rightarrow> Inl e
                            | Inr (ratio, matches, considered) \<Rightarrow>
                                let d = \<lparr>name_results_of = None, address_ratio_of = ratio,
                                         address_matches = matches,
                                         total_address_fields = considered\<rparr>
                                in if is_exact_normal
                                   then Inr (Some (90 + ratio * 10, ''exact_normal'', d))
                                   else Inr (Some (85 + ratio * 10, ''exact_swapped'', d)))
                      else Inr None)"

definition phonetic_fallback :: "libs \<Rightarrow> person \<Rightarrow> person \<Rightarrow> name_results \<Rightarrow> name_results option" where
  \<comment> \<open>the borderline branch: the boosted result, or \<open>None\<close> where the loop continues\<close>
  "phonetic_fallback L record_a record_b nr =
     (let v_a_phon = get_cologne_phonetic (encode L) (Vorname record_a);
          n_a_phon = get_cologne_phonetic (encode L) (Name record_a);
          v_b_phon = get_cologne_phonetic (encode L) (Vorname record_b);
          n_b_phon = get_cologne_phonetic (encode L) (Name record_b);
          all_coded = (v_a_phon \<noteq> [] \<and> n_a_phon \<noteq> [] \<and> v_b_phon \<noteq> [] \<and> n_b_phon \<noteq> []);
          phonetic_match_normal = (all_coded \<and> v_a_phon = v_b_phon \<and> n_a_phon = n_b_phon);
          phonetic_match_swapped = (all_coded \<and> v_a_phon = n_b_phon \<and> n_a_phon = v_b_phon)
      in if phonetic_match_normal \<or> phonetic_match_swapped
         then Some (nr\<lparr>best_score := 72 / 100, is_swapped := phonetic_match_swapped,
                       phonetic_assisted := True\<rparr>)
         else None)"

definition fuzzy_confidence :: "name_results \<Rightarrow> rat \<Rightarrow> rat \<times> string" where
  \<comment> \<open>the confidence and the match type of stage 2\<close>
  "fuzzy_confidence nr ratio =
     (if phonetic_assisted nr
      then (if is_swapped nr then (70 + ratio * 10, ''phonetic_assisted_swapped'')
            else (72 + ratio * 10, ''phonetic_assisted_normal''))
      else let base_confidence = best_score nr * 50;
               address_bonus = ratio * 30
           in if is_swapped nr
              then (min (base_confidence + address_bonus - 5) 95, ''fuzzy_swapped'')
              else (min (base_confidence + address_bonus) 95, ''fuzzy_normal''))"

definition stage2_pair ::
  "libs \<Rightarrow> rat \<Rightarrow> rat \<Rightarrow> person \<Rightarrow> person \<Rightarrow> py_error + (rat \<times> string \<times> details) option" where
  \<comment> \<open>the body of the stage 2 loop for two rows stage 1 left unmatched\<close>
  "stage2_pair L confidence_threshold fuzzy_threshold record_a record_b =
     (if \<not> passes_rules L record_a record_b then Inr None
      else let nr0 = compare_names (QRatio L) (Vorname record_a) (Name record_a)
                                   (Vorname record_b) (Name record_b);
               accepted =
                 (if best_score nr0 < fuzzy_threshold
                  then (if 60 / 100 \<le> best_score nr0 \<and> best_score nr0 < fuzzy_threshold
                        then phonetic_fallback L record_a record_b nr0
                        else None)
                  else Some nr0)
           in case accepted of
                None \<Rightarrow> Inr None
              | Some nr \<Rightarrow>
                  (case address_ratio record_a record_b of
                     Inl e \<Rightarrow> Inl e
                   | Inr (ratio, matches, considered) \<Rightarrow>
                       (case fuzzy_confidence nr ratio of (confidence, mtype) \<Rightarrow>
                          if confidence \<ge> confidence_threshold
                          then Inr (Some (confidence, mtype,
                                 \<lparr>name_results_of = Some nr, address_ratio_of = ratio,
                                  address_matches = matches, total_address_fields = considered\<rparr>))
                          else Inr None)))"

definition pairs :: "nat \<Rightarrow> (nat \<times> nat) list" where
  \<comment> \<open>\<open>for i in range(n): for j in range(i + 1, n)\<close>\<close>
  "pairs n = concat (map (\<lambda>i. map (\<lambda>j. (i, j)) [i + 1..<n]) [0..<n])"

definition make_match :: "block \<Rightarrow> nat \<Rightarrow> nat \<Rightarrow> rat \<times> string \<times> details \<Rightarrow> MatchResult" where
  "make_match block i j r =
     (case r of (confidence, mtype, d) \<Rightarrow>
        \<lparr>record_a_idx = fst (block ! i), record_b_idx = fst (block ! j),
         confidence_score = confidence, match_type = mtype, match_details = d\<rparr>)"

definition stage1_step ::
  "libs \<Rightarrow> block \<Rightarrow> nat \<times> nat \<Rightarrow> py_error + MatchResult list \<times> nat set
     \<Rightarrow> py_error + MatchResult list \<times> nat set" where
  "stage1_step L block p st =
     (case st of
        Inl e \<Rightarrow> Inl e
      | Inr (matches, matched_indices) \<Rightarrow>
          (case p of (i, j) \<Rightarrow>
             case stage1_pair L (snd (block ! i)) (snd (block ! j)) of
               Inl e \<Rightarrow> Inl e
             | Inr None \<Rightarrow> Inr (matches, matched_indices)
             | Inr (Some r) \<Rightarrow>
                 Inr (matches @ [make_match block i j r],
                      insert j (insert i matched_indices))))"

definition stage2_step ::
  "libs \<Rightarrow> rat \<Rightarrow> rat \<Rightarrow> block \<Rightarrow> nat set \<Rightarrow> nat \<times> nat \<Rightarrow> py_error + MatchResult list
     \<Rightarrow> py_error + MatchResult list" where
  "stage2_step L confidence_threshold fuzzy_threshold block matched_indices p st =
     (case st of
        Inl e \<Rightarrow> Inl e
      | Inr matches \<Rightarrow>
          (case p of (i, j) \<Rightarrow>
             if i \<in> matched_indices \<or> j \<in> matched_indices then Inr matches
             else case stage2_pair L confidence_threshold fuzzy_threshold
                         (snd (block ! i)) (snd (block ! j)) of
                    Inl e \<Rightarrow> Inl e
                  | Inr None \<Rightarrow> Inr matches
                  | Inr (Some r) \<Rightarrow> Inr (matches @ [make_match block i j r])))"

definition process_block_worker :: "libs \<Rightarrow> block \<times> rat \<times> rat \<Rightarrow> py_error + MatchResult list" where
  \<comment> \<open>an exception leaves the worker with \<open>Inl\<close>; the caller catches it\<close>
  "process_block_worker L args =
     (case args of (block_data, confidence_threshold, fuzzy_threshold) \<Rightarrow>
        let block_size = length block_data
        in if block_size < 2 then Inr []
           else case fold (stage1_step L block_data) (pairs block_size) (Inr ([], {})) of
                  Inl e \<Rightarrow> Inl e
                | Inr (matches, matched_indices) \<Rightarrow>
                    fold (stage2_step L confidence_threshold fuzzy_threshold block_data
                            matched_indices)
                         (pairs block_size) (Inr matches))"

section \<open>UltraFastDuplicateChecker\<close>

record checker =
  fuzzy_threshold :: rat
  use_parallel :: bool
  n_workers :: nat
  use_phonetic :: bool

definition UltraFastDuplicateChecker_init ::
  "nat \<Rightarrow> rat option \<Rightarrow> bool option \<Rightarrow> nat option \<Rightarrow> bool option \<Rightarrow> checker" where
  \<comment> \<open>\<open>__init__\<close>; an argument that is not given is \<open>None\<close> and takes the default of the
      signature; \<open>cpu_count\<close> is \<open>mp.cpu_count()\<close>\<close>
  "UltraFastDuplicateChecker_init cpu_count fuzzy_threshold_arg use_parallel_arg n_workers_arg
       use_phonetic_arg =
     \<lparr>fuzzy_threshold = (case fuzzy_threshold_arg of None \<Rightarrow> 8 / 10 | Some t \<Rightarrow> t),
      use_parallel = (case use_parallel_arg of None \<Rightarrow> True | Some b \<Rightarrow> b),
      n_workers = (case n_workers_arg of
                     None \<Rightarrow> max 1 (cpu_count - 1)
                   | Some n \<Rightarrow> if n \<noteq> 0 then n else max 1 (cpu_count - 1)),
      use_phonetic = (case use_phonetic_arg of None \<Rightarrow> True | Some b \<Rightarrow> b)\<rparr>"

definition blocking_key_of :: "libs \<Rightarrow> checker \<Rightarrow> person \<Rightarrow> string" where
  \<comment> \<open>the key of \<open>self.blocking\<close>, the strategy \<open>__init__\<close> chose\<close>
  "blocking_key_of L c =
     (if use_phonetic c then create_blocking_key_phonetic (encode L) else create_blocking_key)"

definition run_block :: "libs \<Rightarrow> block \<times> rat \<times> rat \<Rightarrow> MatchResult list" where
  \<comment> \<open>one task under its \<open>try\<close>: a block that raises is logged and adds nothing\<close>
  "run_block L args = (case process_block_worker L args of Inl e \<Rightarrow> [] | Inr ms \<Rightarrow> ms)"

definition analyze_duplicates ::
  "libs \<Rightarrow> (nat \<Rightarrow> nat list) \<Rightarrow> checker \<Rightarrow> person list \<Rightarrow> rat \<Rightarrow> py_error + MatchResult list" where
  \<comment> \<open>\<open>completion n\<close> is the order in which \<open>as_completed\<close> yields the \<open>n\<close> futures of the
      process pool, each once\<close>
  "analyze_duplicates L completion c df confidence_threshold =
     (case create_blocks (blocking_key_of L c) df 10000 of
        Inl e \<Rightarrow> Inl e
      | Inr blocks \<Rightarrow>
          if blocks = [] then Inr []
          else let block_args = map (\<lambda>kb. (snd kb, confidence_threshold, fuzzy_threshold c))
                                    blocks
               in if use_parallel c \<and> length blocks > 10
                  then Inr (concat (map (\<lambda>i. run_block L (block_args ! i))
                                        (completion (length block_args))))
                  else Inr (concat (map (run_block L) block_args)))"

section \<open>run_optimized_analysis\<close>

record cli_args =
  limit :: "nat option"
  confidence :: rat
  fuzzy_threshold_opt :: rat
  no_parallel :: bool

definition default_args :: cli_args where
  \<comment> \<open>the defaults of the argument parser of \<open>main\<close>\<close>
  "default_args = \<lparr>limit = None, confidence = 70, fuzzy_threshold_opt = 7 / 10,
                    no_parallel = False\<rparr>"

definition main_checker :: "nat \<Rightarrow> cli_args \<Rightarrow> checker" where
  \<comment> \<open>the checker \<open>main\<close> constructs from the parsed arguments\<close>
  "main_checker cpu_count args =
     UltraFastDuplicateChecker_init cpu_count (Some (fuzzy_threshold_opt args))
       (Some (\<not> no_parallel args)) None None"

section \<open>Instances of the library functions for examples\<close>

text \<open>
  To run the model on concrete records the three parameters need values. These are
  used in the examples only: the similarity of \<open>rapidfuzz\<close> (twice the length of a longest
  common subsequence over the sum of the lengths, zero when a string is empty), a partial
  reading of \<open>int(float(s))\<close>, and an encoder that always fails. \<open>int_float_plain\<close> has
  the value of \<open>int(float(s))\<close> on a plain decimal numeral of at most fifteen digits
  (optional sign, digits, optional fraction); on any other string it gives \<open>None\<close>, also
  where Python would parse the string (an exponent, underscores, more digits), so it
  stands for \<open>int(float(s))\<close> on plain numerals only.
\<close>

fun lcs :: "string \<Rightarrow> string \<Rightarrow> nat" where
  "lcs [] ys = 0"
| "lcs (x # xs) [] = 0"
| "lcs (x # xs) (y # ys) =
     (if x = y then Suc (lcs xs ys) else max (lcs xs (y # ys)) (lcs (x # xs) ys))"

definition indel_ratio :: "string \<Rightarrow> string \<Rightarrow> rat" where
  "indel_ratio a b =
     (if a = [] \<or> b = [] then 0
      else 100 * of_nat (2 * lcs a b) / of_nat (length a + length b))"

definition int_float_plain :: "string \<Rightarrow> int option" where
  "int_float_plain s =
     (let neg = (s \<noteq> [] \<and> hd s = CHR ''-'');
          body = (if s \<noteq> [] \<and> (hd s = CHR ''-'' \<or> hd s = CHR ''+'') then tl s else s);
          ip = takeWhile isdigit body;
          rest = dropWhile isdigit body;
          fp = (case rest of
                  [] \<Rightarrow> Some []
                | c # cs \<Rightarrow> if c = CHR ''.'' \<and> list_all isdigit cs then Some cs else None)
      in case fp of
           None \<Rightarrow> None
         | Some f \<Rightarrow> if (ip = [] \<and> f = []) \<or> length ip + length f > 15 then None
                     else Some ((if neg then - 1 else 1) * int (int_of_digits ip)))"

definition no_encoder :: "string \<Rightarrow> (string \<times> string) list option" where
  "no_encoder s = None"

definition example_libs :: libs where
  "example_libs = \<lparr>QRatio = indel_ratio, encode = no_encoder, int_float = int_float_plain\<rparr>"

definition in_order :: "nat \<Rightarrow> nat list" where
  "in_order n = [0..<n]"

definition reversed_order :: "nat \<Rightarrow> nat list" where
  "reversed_order n = rev [0..<n]"

section \<open>Notions of the specification\<close>

definition lower_trimmed :: "cell \<Rightarrow> string" where
  \<comment> \<open>a field as the second-name rule reads it: a missing field is empty, any other is
      trimmed and lower-cased\<close>
  "lower_trimmed c = (if isna c then [] else lower (strip (str c)))"

definition effective_year_spec :: "(string \<Rightarrow> int option) \<Rightarrow> cell \<Rightarrow> cell \<Rightarrow> int option" where
  \<comment> \<open>the effective year as the specification words it: the year of the birth date if
      there is one, else the parsed birth year\<close>
  "effective_year_spec f geburtstag jahrgang =
     (case extract_year geburtstag of Some y \<Rightarrow> Some y | None \<Rightarrow> parse_jahrgang f jahrgang)"

definition date_rule_spec ::
  "(string \<Rightarrow> int option) \<Rightarrow> cell \<Rightarrow> cell \<Rightarrow> cell \<Rightarrow> cell \<Rightarrow> bool" where
  \<comment> \<open>the date rule as the specification words it: both effective years present and
      equal, or both absent\<close>
  "date_rule_spec f geburtstag_a jahrgang_a geburtstag_b jahrgang_b =
     (let ea = effective_year_spec f geburtstag_a jahrgang_a;
          eb = effective_year_spec f geburtstag_b jahrgang_b
      in (ea \<noteq> None \<and> eb \<noteq> None \<and> ea = eb) \<or> (ea = None \<and> eb = None))"

definition comparable :: "(person \<Rightarrow> cell) \<Rightarrow> person \<Rightarrow> person \<Rightarrow> bool" where
  \<comment> \<open>an address field that is non-empty on both sides, as the specification reads a
      field: a missing value is an empty one\<close>
  "comparable field record_a record_b =
     (lower_trimmed (field record_a) \<noteq> [] \<and> lower_trimmed (field record_b) \<noteq> [])"

definition fuzzy_kinds :: "string set" where
  "fuzzy_kinds = {''fuzzy_normal'', ''fuzzy_swapped'', ''phonetic_assisted_normal'',
                  ''phonetic_assisted_swapped''}"

definition exact_kinds :: "string set" where
  "exact_kinds = {''exact_normal'', ''exact_swapped''}"

definition well_scored :: "rat \<Rightarrow> MatchResult \<Rightarrow> bool" where
  \<comment> \<open>what the worker guarantees of a match it emits under the threshold \<open>ct\<close>\<close>
  "well_scored ct m =
     ((match_type m \<in> exact_kinds \<and> 85 \<le> confidence_score m \<and> confidence_score m \<le> 100) \<or>
      (match_type m \<in> fuzzy_kinds \<and> ct \<le> confidence_score m \<and> confidence_score m \<le> 95))"

definition summary :: "MatchResult \<Rightarrow> nat \<times> nat \<times> rat \<times> string" where
  \<comment> \<open>a match as the pair of row indices with confidence and kind\<close>
  "summary m = (record_a_idx m, record_b_idx m, confidence_score m, match_type m)"

definition completion_order :: "(nat \<Rightarrow> nat list) \<Rightarrow> bool" where
  \<comment> \<open>the contract of \<open>as_completed\<close>: each of the \<open>n\<close> futures is yielded once\<close>
  "completion_order completion =
     (\<forall>n. distinct (completion n) \<and> set (completion n) = {0..<n})"





section \<open>Example records\<close>

definition no_address_person :: person where
  "no_address_person = \<lparr>Name = Str ''Mustermann'', Vorname = Str ''Max'', Name2 = PyNone,
     Strasse = PyNone, HausNummer = PyNone, Plz = PyNone, Ort = PyNone, Crefo = PyNone,
     Geburtstag = Str ''1980-01-15'', Jahrgang = PyNone\<rparr>"

definition no_address_swapped :: person where
  "no_address_swapped = \<lparr>Name = Str ''Max'', Vorname = Str ''Mustermann'', Name2 = PyNone,
     Strasse = PyNone, HausNummer = PyNone, Plz = PyNone, Ort = PyNone, Crefo = PyNone,
     Geburtstag = Str ''1980-01-15'', Jahrgang = PyNone\<rparr>"

definition max_mustermann :: person where
  "max_mustermann = \<lparr>Name = Str ''Mustermann'', Vorname = Str ''Max'', Name2 = Str [],
     Strasse = Str [], HausNummer = Str [], Plz = Str [], Ort = Str [], Crefo = Str [],
     Geburtstag = Str ''1980-01-15'', Jahrgang = PyNone\<rparr>"

definition resident :: "string \<Rightarrow> string \<Rightarrow> string \<Rightarrow> string \<Rightarrow> person" where
  "resident name vorname strasse plz =
     \<lparr>Name = Str name, Vorname = Str vorname, Name2 = Str [], Strasse = Str strasse,
      HausNummer = Str ''5'', Plz = Str plz, Ort = Str ''Basel'', Crefo = PyNone,
      Geburtstag = Str ''1985-03-10'', Jahrgang = PyNone\<rparr>"

definition hans_block :: block where
  "hans_block = [(0, resident ''Mueller'' ''Hans'' ''Muellerweg'' ''4051''),
                 (1, resident ''Mueller'' ''Haus'' ''Muellerweg'' ''4051'')]"

definition hans_match :: MatchResult where
  "hans_match =
     \<lparr>record_a_idx = 0, record_b_idx = 1, confidence_score = 295 / 4,
      match_type = ''fuzzy_normal'',
      match_details =
        \<lparr>name_results_of =
           Some \<lparr>normal_score = 7 / 8, swapped_score = 1 / 11, best_score = 7 / 8,
                 is_swapped = False, sims = Some (3 / 4, 1, 0, 2 / 11),
                 phonetic_assisted = False\<rparr>,
         address_ratio_of = 1, address_matches = 4, total_address_fields = 4\<rparr>\<rparr>"

definition example_df :: "person list" where
  \<comment> \<open>twelve pairs of identical records, each pair under a postal code of its own\<close>
  "example_df =
     concat (map (\<lambda>k. [resident ''Ott'' ''Eva'' ''Ring'' (''40'' @ str_nat k),
                        resident ''Ott'' ''Eva'' ''Ring'' (''40'' @ str_nat k)])
                 [10..<22])"

definition example_checker :: checker where
  "example_checker = UltraFastDuplicateChecker_init 8 (Some (7 / 10)) None None None"

section \<open>The second-name rule\<close>

text \<open>
  C5. On the lower-cased, trimmed fields the second-name rule passes exactly when both
  second names are empty, or both are non-empty and equal, or exactly one is non-empty
  and the family name of the other side ends with it. In particular Rohner-Stassek with
  no second name passes against Rohner with second name -Stassek.
\<close>

theorem check_zweitname_cases:
  "(check_zweitname name_a name2_a name_b name2_b \<longleftrightarrow>
     (lower_trimmed name2_a = [] \<and> lower_trimmed name2_b = []) \<or>
     (lower_trimmed name2_a \<noteq> [] \<and> lower_trimmed name2_b \<noteq> [] \<and>
        lower_trimmed name2_a = lower_trimmed name2_b) \<or>
     (lower_trimmed name2_a \<noteq> [] \<and> lower_trimmed name2_b = [] \<and>
        endswith (lower_trimmed name_b) (lower_trimmed name2_a)) \<or>
     (lower_trimmed name2_a = [] \<and> lower_trimmed name2_b \<noteq> [] \<and>
        endswith (lower_trimmed name_a) (lower_trimmed name2_b)))
   \<and> check_zweitname (Str ''Rohner-Stassek'') (Str []) (Str ''Rohner'') (Str ''-Stassek'')"
proof
  show "check_zweitname name_a name2_a name_b name2_b \<longleftrightarrow>
     (lower_trimmed name2_a = [] \<and> lower_trimmed name2_b = []) \<or>
     (lower_trimmed name2_a \<noteq> [] \<and> lower_trimmed name2_b \<noteq> [] \<and>
        lower_trimmed name2_a = lower_trimmed name2_b) \<or>
     (lower_trimmed name2_a \<noteq> [] \<and> lower_trimmed name2_b = [] \<and>
        endswith (lower_trimmed name_b) (lower_trimmed name2_a)) \<or>
     (lower_trimmed name2_a = [] \<and> lower_trimmed name2_b \<noteq> [] \<and>
        endswith (lower_trimmed name_a) (lower_trimmed name2_b))"
    unfolding check_zweitname_def lower_trimmed_def Let_def by auto
  show "check_zweitname (Str ''Rohner-Stassek'') (Str []) (Str ''Rohner'') (Str ''-Stassek'')"
    by code_simp
qed

theorem check_zweitname_cases_witness:
  "check_zweitname (Str ''Meier'') (Str '' -Huber'') (Str ''Meier-Huber'') PyNone
   \<and> \<not> check_zweitname (Str ''Meier'') (Str ''Huber'') (Str ''Meier'') (Str ''Keller'')"
proof -
  have a: "lower_trimmed (Str '' -Huber'') \<noteq> [] \<and> lower_trimmed PyNone = [] \<and>
           endswith (lower_trimmed (Str ''Meier-Huber'')) (lower_trimmed (Str '' -Huber''))"
    by code_simp
  have b: "lower_trimmed (Str ''Huber'') \<noteq> [] \<and> lower_trimmed (Str ''Keller'') \<noteq> [] \<and>
           lower_trimmed (Str ''Huber'') \<noteq> lower_trimmed (Str ''Keller'')"
    by code_simp
  from a have "check_zweitname (Str ''Meier'') (Str '' -Huber'') (Str ''Meier-Huber'') PyNone"
    using check_zweitname_cases [of "Str ''Meier''" "Str '' -Huber''" "Str ''Meier-Huber''" PyNone]
    by blast
  moreover from b
  have "\<not> check_zweitname (Str ''Meier'') (Str ''Huber'') (Str ''Meier'') (Str ''Keller'')"
    using check_zweitname_cases [of "Str ''Meier''" "Str ''Huber''" "Str ''Meier''" "Str ''Keller''"]
    by blast
  ultimately show ?thesis by blast
qed

section \<open>The date rule\<close>

lemma check_date_rule_nonzero:
  "extract_year ga \<noteq> Some 0 \<Longrightarrow> extract_year gb \<noteq> Some 0 \<Longrightarrow>
   parse_jahrgang f ja \<noteq> Some 0 \<Longrightarrow> parse_jahrgang f jb \<noteq> Some 0 \<Longrightarrow>
   check_date_rule f ga ja gb jb = date_rule_spec f ga ja gb jb"
  unfolding check_date_rule_def date_rule_spec_def effective_year_spec_def Let_def
  by (cases "extract_year ga"; cases "extract_year gb"; cases "parse_jahrgang f ja";
      cases "parse_jahrgang f jb") auto

text \<open>
  C4. The date rule is claimed to pass exactly when the effective years of both sides are
  present and equal or both absent. For two records without a birth date whose birth year
  is 0 the effective years are present and equal, so the rule as claimed passes, but
  \<open>check_date_rule\<close> fails: it tests the years by their truth value, and 0 is false.
\<close>

theorem check_date_rule_year_zero:
  "\<not> check_date_rule int_float_plain PyNone (Str ''0'') PyNone (Str ''0'')
   \<and> date_rule_spec int_float_plain PyNone (Str ''0'') PyNone (Str ''0'')"
  by code_simp

section \<open>Blocking keys\<close>

lemma normalize_plz_length: "length (normalize_plz plz) = 5"
  by (simp add: normalize_plz_def zfill_def)

lemma create_blocking_key_has_plz:
  "create_blocking_key r =
     (if normalize_street (Strasse r) = [] then ''plz_only_'' @ normalize_plz (Plz r)
      else normalize_plz (Plz r) @ ''_'' @ normalize_street (Strasse r))"
proof -
  have "normalize_plz (Plz r) \<noteq> []"
    using normalize_plz_length [of "Plz r"] by auto
  then show ?thesis by (simp add: create_blocking_key_def Let_def)
qed

text \<open>
  C2. A record without postal code and street is claimed to get the key
  \<open>phon_<code>_<code>\<close> under phonetic blocking and \<open>no_address\<close> without it. The postal
  code is padded to five digits even when it is missing, so such a record gets the key
  \<open>plz_only_00000\<close> under both strategies, whatever the phonetic encoder returns.
\<close>

theorem no_address_key_is_plz_only:
  "create_blocking_key_phonetic enc no_address_person = ''plz_only_00000''
   \<and> create_blocking_key no_address_person = ''plz_only_00000''"
  by code_simp

text \<open>
  C6. Street normalisation is claimed to expand the umlauts as name normalisation does, so
  that Muellerstrasse and its spelling with u-umlaut normalise alike. It only replaces the
  sharp s and leaves the umlauts to the transliteration, which drops the dots: the two
  spellings normalise differently and get different blocking keys, while the name
  normalisation maps both to one string.
\<close>

theorem street_umlaut_not_expanded:
  "normalize_street (Str (''M'' @ [CHR 0xFC] @ ''llerstrasse'')) = ''mullerstrasse''
   \<and> normalize_street (Str ''Muellerstrasse'') = ''muellerstrasse''
   \<and> create_blocking_key (resident ''Meier'' ''Karl'' (''M'' @ [CHR 0xFC] @ ''llerstrasse'') ''4051'')
       \<noteq> create_blocking_key (resident ''Meier'' ''Karl'' ''Muellerstrasse'' ''4051'')
   \<and> normalize_name (Str (''M'' @ [CHR 0xFC] @ ''llerstrasse''))
       = normalize_name (Str ''Muellerstrasse'')"
  by code_simp

section \<open>The default fuzzy threshold\<close>

text \<open>
  C9, as claimed: a checker constructed without a fuzzy threshold has the threshold 0.70.
  It has 0.8.
\<close>

theorem default_fuzzy_threshold_counterexample:
  "fuzzy_threshold (UltraFastDuplicateChecker_init 8 None None None None) \<noteq> 7 / 10"
  by (simp add: UltraFastDuplicateChecker_init_def)

text \<open>
  C9, amended: the constructor's default for the fuzzy threshold is 0.8; the command-line
  runner has the default 0.7 for its option and passes it to the constructor, so a run
  started from the runner without the option uses 0.70.
\<close>

theorem default_fuzzy_threshold:
  "fuzzy_threshold (UltraFastDuplicateChecker_init cpu None up nw ph) = 8 / 10
   \<and> fuzzy_threshold (main_checker cpu default_args) = 7 / 10"
  by (simp add: UltraFastDuplicateChecker_init_def main_checker_def default_args_def)

section \<open>The address ratio\<close>

lemma fold_counts_le:
  "fst (acc :: nat \<times> nat) \<le> snd acc \<Longrightarrow>
   fst (fold (\<lambda>field (matches, considered).
             let val_a = lower (strip (str (field record_a)));
                 val_b = lower (strip (str (field record_b)))
             in if val_a \<noteq> [] \<and> val_b \<noteq> []
                then (if val_a = val_b then matches + 1 else matches, considered + 1)
                else (matches, considered)) fs acc)
   \<le> snd (fold (\<lambda>field (matches, considered).
             let val_a = lower (strip (str (field record_a)));
                 val_b = lower (strip (str (field record_b)))
             in if val_a \<noteq> [] \<and> val_b \<noteq> []
                then (if val_a = val_b then matches + 1 else matches, considered + 1)
                else (matches, considered)) fs acc)"
proof (induction fs arbitrary: acc)
  case Nil
  then show ?case by simp
next
  case (Cons f fs)
  show ?case
    apply (simp only: fold_simps)
    apply (rule Cons.IH)
    using Cons.prems by (cases acc) (auto simp: Let_def)
qed

lemma address_counts_le: "fst (address_counts a b) \<le> snd (address_counts a b)"
  unfolding address_counts_def by (rule fold_counts_le) simp

lemma address_ratio_total:
  "address_ratio a b =
     Inr (of_nat (fst (address_counts a b)) / of_nat (max (snd (address_counts a b)) 1),
          fst (address_counts a b), snd (address_counts a b))"
  by (simp add: address_ratio_def py_truediv_def split: prod.splits)

lemma address_ratio_bounds:
  assumes "address_ratio a b = Inr (ratio, m, t)"
  shows "0 \<le> ratio \<and> ratio \<le> 1"
proof -
  have r: "ratio = of_nat (fst (address_counts a b)) / of_nat (max (snd (address_counts a b)) 1)"
    using assms by (auto simp: address_ratio_total)
  have "fst (address_counts a b) \<le> max (snd (address_counts a b)) 1"
    using address_counts_le [of a b] by simp
  then have "(of_nat (fst (address_counts a b)) :: rat) \<le> of_nat (max (snd (address_counts a b)) 1)"
    by (simp only: of_nat_le_iff)
  moreover have "(0::rat) < of_nat (max (snd (address_counts a b)) 1)" by simp
  ultimately show ?thesis unfolding r by (simp add: divide_le_eq_1)
qed

lemma address_counts_none:
  assumes "\<forall>field \<in> set address_fields.
             lower (strip (str (field a))) = [] \<or> lower (strip (str (field b))) = []"
  shows "address_counts a b = (0, 0)"
  using assms unfolding address_counts_def address_fields_def
  by (simp add: Let_def)

lemma address_ratio_Inr: "\<exists>r m n. address_ratio a b = Inr (r, m, n)"
  using address_ratio_total [of a b] by blast

lemma stage1_pair_cases:
  assumes "stage1_pair L a b = Inr (Some (c, t, d))"
  shows "(t = ''exact_normal'' \<and> c = 90 + address_ratio_of d * 10 \<or>
          t = ''exact_swapped'' \<and> c = 85 + address_ratio_of d * 10) \<and>
         address_ratio a b = Inr (address_ratio_of d, address_matches d, total_address_fields d)"
proof -
  obtain r m n where ar: "address_ratio a b = Inr (r, m, n)"
    using address_ratio_Inr by blast
  show ?thesis
    using assms unfolding stage1_pair_def
    apply (simp only: Let_def ar sum.case prod.case split: if_split_asm)
      apply (simp_all (no_asm_use))
     apply auto
    done
qed

lemma stage1_never_raises: "stage1_pair L a b \<noteq> Inl e"
proof -
  obtain r m n where ar: "address_ratio a b = Inr (r, m, n)"
    using address_ratio_Inr by blast
  show ?thesis unfolding stage1_pair_def
    by (simp only: Let_def ar sum.case prod.case sum.distinct simp_thms split: if_split)
qed

lemma stage2_never_raises: "stage2_pair L ct ft a b \<noteq> Inl e"
proof -
  obtain r m n where ar: "address_ratio a b = Inr (r, m, n)"
    using address_ratio_Inr by blast
  show ?thesis unfolding stage2_pair_def
    by (simp only: Let_def ar sum.case prod.case sum.distinct simp_thms
          split: if_split option.split prod.split)
qed

lemma fuzzy_confidence_cap:
  assumes "0 \<le> ratio" "ratio \<le> 1" "fuzzy_confidence nr ratio = (c, t)"
  shows "t \<in> fuzzy_kinds \<and> c \<le> 95"
  using assms unfolding fuzzy_confidence_def fuzzy_kinds_def Let_def
  by (auto split: if_splits)

lemma stage2_pair_cases:
  assumes "stage2_pair L ct ft a b = Inr (Some (c, t, d))"
  shows "t \<in> fuzzy_kinds \<and> c \<le> 95 \<and> ct \<le> c"
proof -
  obtain r m n where ar: "address_ratio a b = Inr (r, m, n)"
    using address_ratio_Inr by blast
  have rb: "0 \<le> r \<and> r \<le> 1" using address_ratio_bounds [OF ar] .
  from assms obtain nr where fc: "fuzzy_confidence nr r = (c, t)" and ge: "ct \<le> c"
    unfolding stage2_pair_def
    by (simp only: Let_def ar sum.case prod.case split: if_split_asm option.split_asm prod.split_asm)
       (simp_all (no_asm_use), blast+)
  show ?thesis using fuzzy_confidence_cap [OF _ _ fc] rb ge by blast
qed

lemma address_ratio_nothing_considered:
  assumes "\<forall>field \<in> set address_fields.
             lower (strip (str (field a))) = [] \<or> lower (strip (str (field b))) = []"
  shows "address_ratio a b = Inr (0, 0, 0)
       \<and> (\<forall>c d. stage1_pair L a b = Inr (Some (c, ''exact_normal'', d)) \<longrightarrow> c = 90)
       \<and> (\<forall>c d. stage1_pair L a b = Inr (Some (c, ''exact_swapped'', d)) \<longrightarrow> c = 85)"
proof -
  have z: "address_counts a b = (0, 0)" using assms by (rule address_counts_none)
  have r: "address_ratio a b = Inr (0, 0, 0)" by (simp add: address_ratio_total z)
  have n: "c = 90" if "stage1_pair L a b = Inr (Some (c, ''exact_normal'', d))" for c d
    using stage1_pair_cases [OF that] by (simp add: r)
  have s: "c = 85" if "stage1_pair L a b = Inr (Some (c, ''exact_swapped'', d))" for c d
    using stage1_pair_cases [OF that] by (simp add: r)
  show ?thesis using r n s by blast
qed

text \<open>
  C10. A pair with no address field that is non-empty on both sides is claimed to have
  the address ratio 0, so that its exact match has confidence 90, or 85 when the names are
  swapped. The divisor \<open>max(total_address_fields, 1)\<close> is never zero and neither stage
  raises, but the worker reads a field through \<open>str(...)\<close>, which renders a missing value
  as \<open>None\<close>: two records whose four address fields are all missing have no field that
  is non-empty on both sides, yet all four fields are counted and all four match, the
  ratio is 1, and the confidences are 100 and 95.
\<close>

theorem missing_address_counts_as_match:
  "\<not> comparable Strasse no_address_person no_address_person
   \<and> \<not> comparable HausNummer no_address_person no_address_person
   \<and> \<not> comparable Plz no_address_person no_address_person
   \<and> \<not> comparable Ort no_address_person no_address_person
   \<and> address_ratio no_address_person no_address_person = Inr (1, 4, 4)
   \<and> stage1_pair example_libs no_address_person no_address_person =
       Inr (Some (100, ''exact_normal'',
         \<lparr>name_results_of = None, address_ratio_of = 1, address_matches = 4,
          total_address_fields = 4\<rparr>))
   \<and> stage1_pair example_libs no_address_person no_address_swapped =
       Inr (Some (95, ''exact_swapped'',
         \<lparr>name_results_of = None, address_ratio_of = 1, address_matches = 4,
          total_address_fields = 4\<rparr>))"
  by code_simp

section \<open>The matches of a block\<close>

lemma stage1_match_scored:
  assumes "stage1_pair L a b = Inr (Some r)"
  shows "well_scored ct (make_match block i j r)"
proof -
  obtain c t d where r: "r = (c, t, d)" by (cases r) auto
  note sc = stage1_pair_cases [OF assms [unfolded r]]
  have "0 \<le> address_ratio_of d \<and> address_ratio_of d \<le> 1"
    using sc address_ratio_bounds by blast
  then show ?thesis using sc
    by (auto simp: well_scored_def make_match_def r exact_kinds_def)
qed

lemma stage2_match_scored:
  assumes "stage2_pair L ct ft a b = Inr (Some r)"
  shows "well_scored ct (make_match block i j r)"
proof -
  obtain c t d where r: "r = (c, t, d)" by (cases r) auto
  note sc = stage2_pair_cases [OF assms [unfolded r]]
  then show ?thesis by (simp add: well_scored_def make_match_def r)
qed

lemma stage1_fold:
  assumes "\<forall>m \<in> set ms. well_scored ct m"
  shows "\<exists>ms' S'. fold (stage1_step L block) ps (Inr (ms, S)) = Inr (ms', S') \<and>
                    (\<forall>m \<in> set ms'. well_scored ct m)"
  using assms
proof (induction ps arbitrary: ms S)
  case Nil
  then show ?case by simp
next
  case (Cons p ps)
  obtain i j where p: "p = (i, j)" by (cases p) auto
  show ?case
  proof (cases "stage1_pair L (snd (block ! i)) (snd (block ! j))")
    case (Inl e)
    then show ?thesis using stage1_never_raises by blast
  next
    case (Inr ro)
    show ?thesis
    proof (cases ro)
      case None
      then have "stage1_step L block p (Inr (ms, S)) = Inr (ms, S)"
        by (simp add: stage1_step_def p Inr)
      then show ?thesis using Cons.IH [OF Cons.prems] by simp
    next
      case (Some r)
      then have st: "stage1_step L block p (Inr (ms, S)) =
                     Inr (ms @ [make_match block i j r], insert j (insert i S))"
        by (simp add: stage1_step_def p Inr)
      have "well_scored ct (make_match block i j r)"
        using stage1_match_scored Inr Some by blast
      then have "\<forall>m \<in> set (ms @ [make_match block i j r]). well_scored ct m"
        using Cons.prems by simp
      from Cons.IH [OF this] show ?thesis by (simp add: st)
    qed
  qed
qed

lemma stage2_fold:
  assumes "\<forall>m \<in> set ms. well_scored ct m"
  shows "\<exists>ms'. fold (stage2_step L ct ft block S) ps (Inr ms) = Inr ms' \<and>
                (\<forall>m \<in> set ms'. well_scored ct m)"
  using assms
proof (induction ps arbitrary: ms)
  case Nil
  then show ?case by simp
next
  case (Cons p ps)
  obtain i j where p: "p = (i, j)" by (cases p) auto
  show ?case
  proof (cases "i \<in> S \<or> j \<in> S")
    case True
    then have "stage2_step L ct ft block S p (Inr ms) = Inr ms"
      by (simp add: stage2_step_def p)
    then show ?thesis using Cons.IH [OF Cons.prems] by simp
  next
    case False
    show ?thesis
    proof (cases "stage2_pair L ct ft (snd (block ! i)) (snd (block ! j))")
      case (Inl e)
      then show ?thesis using stage2_never_raises by blast
    next
      case (Inr ro)
      show ?thesis
      proof (cases ro)
        case None
        then have "stage2_step L ct ft block S p (Inr ms) = Inr ms"
          using False by (simp add: stage2_step_def p Inr)
        then show ?thesis using Cons.IH [OF Cons.prems] by simp
      next
        case (Some r)
        then have st: "stage2_step L ct ft block S p (Inr ms) = Inr (ms @ [make_match block i j r])"
          using False by (simp add: stage2_step_def p Inr)
        have "well_scored ct (make_match block i j r)"
          using stage2_match_scored Inr Some by blast
        then have "\<forall>m \<in> set (ms @ [make_match block i j r]). well_scored ct m"
          using Cons.prems by simp
        from Cons.IH [OF this] show ?thesis by (simp add: st)
      qed
    qed
  qed
qed

lemma process_block_worker_scored:
  "\<exists>ms. process_block_worker L (block, ct, ft) = Inr ms \<and> (\<forall>m \<in> set ms. well_scored ct m)"
proof (cases "length block < 2")
  case True
  then show ?thesis by (simp add: process_block_worker_def)
next
  case False
  obtain ms1 S1 where s1: "fold (stage1_step L block) (pairs (length block)) (Inr ([], {})) = Inr (ms1, S1)"
    and w1: "\<forall>m \<in> set ms1. well_scored ct m"
    using stage1_fold [of "[]" ct L block "pairs (length block)" "{}"] by auto
  obtain ms2 where s2: "fold (stage2_step L ct ft block S1) (pairs (length block)) (Inr ms1) = Inr ms2"
    and w2: "\<forall>m \<in> set ms2. well_scored ct m"
    using stage2_fold [OF w1] by blast
  show ?thesis using False s1 s2 w2 by (simp add: process_block_worker_def)
qed

lemma kinds_disjoint: "t \<in> exact_kinds \<Longrightarrow> t \<notin> fuzzy_kinds"
  by (auto simp: exact_kinds_def fuzzy_kinds_def)

text \<open>
  C7. Every match of a fuzzy or phonetic-assisted kind the worker emits has a confidence
  of at most 95.
\<close>

theorem fuzzy_confidence_capped:
  assumes "process_block_worker L (block, ct, ft) = Inr ms" and "m \<in> set ms"
    and "match_type m \<in> fuzzy_kinds"
  shows "confidence_score m \<le> 95"
proof -
  have "well_scored ct m"
    using process_block_worker_scored [of L block ct ft] assms(1,2) by auto
  then show ?thesis using assms(3) kinds_disjoint by (auto simp: well_scored_def)
qed

theorem fuzzy_confidence_capped_witness:
  "process_block_worker example_libs (hans_block, 70, 7 / 10) = Inr [hans_match]
   \<and> hans_match \<in> set [hans_match] \<and> match_type hans_match \<in> fuzzy_kinds
   \<and> confidence_score hans_match \<le> 95"
proof -
  have e: "process_block_worker example_libs (hans_block, 70, 7 / 10) = Inr [hans_match]"
    by code_simp
  have f: "match_type hans_match \<in> fuzzy_kinds"
    by (simp add: hans_match_def fuzzy_kinds_def)
  have "confidence_score hans_match \<le> 95"
    using fuzzy_confidence_capped [OF e _ f] by simp
  then show ?thesis using e f by simp
qed

text \<open>
  C1. Every emitted match is claimed to have a confidence of at least the configured
  threshold, the matches of stage 1 included. Stage 1 appends its matches without
  comparing the confidence with the threshold: with the threshold 95 the worker emits
  the exact match of two identical records without address data, whose confidence is 90.
\<close>

theorem exact_match_below_threshold:
  "map_sum id (map summary)
     (process_block_worker example_libs ([(0, max_mustermann), (1, max_mustermann)], 95, 7 / 10))
   = Inr [(0, 1, 90, ''exact_normal'')]"
  by code_simp

section \<open>Parallel and sequential processing\<close>

lemma blocking_key_of_parallel [simp]:
  "blocking_key_of L (c\<lparr>use_parallel := b\<rparr>) = blocking_key_of L c"
  by (simp add: blocking_key_of_def)

lemma set_concat_completion:
  assumes "set order = {0..<length xs}"
  shows "set (concat (map (\<lambda>i. f (xs ! i)) order)) = set (concat (map f xs))"
proof -
  have xs: "set xs = (\<lambda>i. xs ! i) ` {0..<length xs}"
    by (auto simp: set_conv_nth)
  have "set (concat (map (\<lambda>i. f (xs ! i)) order)) = (\<Union>i \<in> {0..<length xs}. set (f (xs ! i)))"
    using assms by auto
  also have "\<dots> = (\<Union>x \<in> set xs. set (f x))"
    by (subst xs) blast
  also have "\<dots> = set (concat (map f xs))" by auto
  finally show ?thesis .
qed

lemma reversed_order_completion: "completion_order reversed_order"
  by (simp add: completion_order_def reversed_order_def)

text \<open>
  C3. For every input and configuration the matches emitted with \<open>use_parallel = true\<close>
  are, as a set, the matches emitted with \<open>use_parallel = false\<close>, whole and as pairs of
  row indices with confidence and kind, in whatever order the tasks of the pool
  complete; an error of the blocking step is the same error in both modes.
\<close>

theorem parallel_same_matches:
  assumes "completion_order completion"
  shows "map_sum id set (analyze_duplicates L completion (c\<lparr>use_parallel := True\<rparr>) df ct)
       = map_sum id set (analyze_duplicates L completion' (c\<lparr>use_parallel := False\<rparr>) df ct)
     \<and> map_sum id (\<lambda>ms. summary ` set ms)
           (analyze_duplicates L completion (c\<lparr>use_parallel := True\<rparr>) df ct)
       = map_sum id (\<lambda>ms. summary ` set ms)
           (analyze_duplicates L completion' (c\<lparr>use_parallel := False\<rparr>) df ct)"
proof (cases "create_blocks (blocking_key_of L c) df 10000")
  case (Inl e)
  then show ?thesis by (simp add: analyze_duplicates_def)
next
  case (Inr blocks)
  define args where "args = map (\<lambda>kb. (snd kb, ct, fuzzy_threshold c)) blocks"
  define par where "par = concat (map (\<lambda>i. run_block L (args ! i)) (completion (length args)))"
  define seq where "seq = concat (map (run_block L) args)"
  have "set (completion (length args)) = {0..<length args}"
    using assms by (simp add: completion_order_def)
  then have eq: "set par = set seq"
    unfolding par_def seq_def by (rule set_concat_completion)
  have p: "analyze_duplicates L completion (c\<lparr>use_parallel := True\<rparr>) df ct =
           (if blocks = [] then Inr [] else if length blocks > 10 then Inr par else Inr seq)"
    by (simp add: analyze_duplicates_def Inr args_def par_def seq_def Let_def)
  have s: "analyze_duplicates L completion' (c\<lparr>use_parallel := False\<rparr>) df ct =
           (if blocks = [] then Inr [] else Inr seq)"
    by (simp add: analyze_duplicates_def Inr args_def seq_def Let_def)
  show ?thesis by (simp add: p s eq)
qed

theorem parallel_same_matches_witness:
  "map_sum id (map summary)
     (analyze_duplicates example_libs reversed_order (example_checker\<lparr>use_parallel := True\<rparr>)
        example_df 70)
     = Inr (rev (map (\<lambda>k. (2 * k, 2 * k + 1, 100, ''exact_normal'')) [0..<12]))
   \<and> map_sum id (map summary)
     (analyze_duplicates example_libs in_order (example_checker\<lparr>use_parallel := False\<rparr>)
        example_df 70)
     = Inr (map (\<lambda>k. (2 * k, 2 * k + 1, 100, ''exact_normal'')) [0..<12])
   \<and> map_sum id (\<lambda>ms. summary ` set ms)
     (analyze_duplicates example_libs reversed_order (example_checker\<lparr>use_parallel := True\<rparr>)
        example_df 70)
     = map_sum id (\<lambda>ms. summary ` set ms)
     (analyze_duplicates example_libs in_order (example_checker\<lparr>use_parallel := False\<rparr>)
        example_df 70)"
proof -
  have p: "map_sum id (map summary)
     (analyze_duplicates example_libs reversed_order (example_checker\<lparr>use_parallel := True\<rparr>)
        example_df 70)
     = Inr (rev (map (\<lambda>k. (2 * k, 2 * k + 1, 100, ''exact_normal'')) [0..<12]))"
    by code_simp
  have s: "map_sum id (map summary)
     (analyze_duplicates example_libs in_order (example_checker\<lparr>use_parallel := False\<rparr>)
        example_df 70)
     = Inr (map (\<lambda>k. (2 * k, 2 * k + 1, 100, ''exact_normal'')) [0..<12])"
    by code_simp
  show ?thesis
    using p s parallel_same_matches [OF reversed_order_completion, of example_libs
        example_checker example_df 70 in_order]
    by blast
qed

section \<open>Idempotence of the normalisers\<close>









































end
